theory Spec2Isabelle
  imports Main "HOL-Library.Word"
begin

section \<open>The PKCS#12 installer of the playbook (pkg/playbook/app/installer/pkcs12.go)\<close>

text \<open>
  The installer decides whether a PKCS#12 bundle on disk must be replaced (\<open>Check\<close>),
  copies the present bundle aside (\<open>Backup\<close>), packages a PEM collection as a new
  bundle and writes it (\<open>Install\<close>, \<open>packageAsPKCS12\<close>), and runs two shell hooks.

  Go returns \<open>(value, error)\<close> pairs; they are kept as pairs \<open>value \<times> error option\<close>,
  \<open>None\<close> being \<open>nil\<close>. A nil byte slice is the empty list. A function of the source
  that can hit a run-time panic returns an \<open>outcome\<close>: it either returns to its caller
  or panics. The calls to the logger (\<open>zap.L()\<close>) only report and are left out.
\<close>

subsection \<open>Data\<close>

type_synonym bytes = "8 word list"

datatype error =
    ErrNoP12Password            \<comment> \<open>\<open>domain.ErrNoP12Password\<close>\<close>
  | Errorf string               \<comment> \<open>\<open>fmt.Errorf(msg)\<close>\<close>
  | Wrapf string error          \<comment> \<open>\<open>fmt.Errorf(msg + "%w", err)\<close>\<close>
  | External string             \<comment> \<open>an error made by a library or by the operating system\<close>

datatype 'a outcome = Returns 'a | Panics

text \<open>\<open>certificate.PEMCollection\<close>: the three fields the installer reads.\<close>

record PEMCollection =
  Certificate :: string
  PrivateKey :: string
  Chain :: "string list"

text \<open>\<open>domain.Installation\<close>, embedded in \<open>PKCS12Installer\<close>: the fields the installer reads.\<close>

record Installation =
  File :: string
  P12Password :: string
  AfterAction :: string
  InstallValidation :: string

text \<open>\<open>pem.Block\<close> and \<open>x509.Certificate\<close>, with the fields that are read.\<close>

record pem_Block =
  Type :: string
  Bytes :: bytes

record x509_Certificate =
  Raw :: bytes
  NotAfter :: int   \<comment> \<open>expiry, in seconds since the epoch\<close>

type_synonym crypto_PrivateKey = bytes

subsection \<open>The libraries the installer calls\<close>

text \<open>
  \<open>encoding/pem\<close>, \<open>crypto/x509\<close>, \<open>go-pkcs12\<close>, \<open>crypto/rand\<close> and the package's own
  \<open>getPrivateKey\<close> (declared in another file) are parameters: every theorem below
  holds for whatever they compute, unless it states a law they must obey. A library
  call that returns \<open>(value, error)\<close> is a sum, \<open>Inl\<close> the non-nil error;
  \<open>pem.Decode\<close> returns a block or nil. \<open>rand_Reader\<close> is the random stream the encoder
  draws its salt from.
\<close>

record library =
  pem_Decode :: "string \<Rightarrow> pem_Block option"
  x509_ParseCertificate :: "bytes \<Rightarrow> error + x509_Certificate"
  getPrivateKey :: "string \<Rightarrow> string \<Rightarrow> error + crypto_PrivateKey"
  pkcs12_Encode :: "bytes \<Rightarrow> crypto_PrivateKey \<Rightarrow> x509_Certificate \<Rightarrow>
                    x509_Certificate list \<Rightarrow> string \<Rightarrow> error + bytes"
  pkcs12_DecodeChain :: "bytes \<Rightarrow> string \<Rightarrow>
                    error + (crypto_PrivateKey \<times> x509_Certificate \<times> x509_Certificate list)"
  rand_Reader :: bytes

subsection \<open>The file system, the clock and the shell\<close>

text \<open>
  The disk maps a path to the bytes of the file stored there. A \<open>system\<close> holds what
  the operating system decides on its own: the I/O failure it reports for an operation
  on a path (permission denied, disk full), if any; what a shell script does; the
  current time; and the length of time a threshold expression such as \<open>30d\<close> denotes.
\<close>

type_synonym disk = "string \<rightharpoonup> bytes"

record system =
  stat_fault :: "string \<Rightarrow> error option"
  read_fault :: "string \<Rightarrow> error option"
  copy_fault :: "string \<Rightarrow> string \<Rightarrow> (error \<times> bytes option) option"
  write_fault :: "string \<Rightarrow> error option"
  ExecuteScript :: "string \<Rightarrow> disk \<Rightarrow> (string \<times> error option) \<times> disk"
  now :: int
  duration :: "string \<Rightarrow> int"

text \<open>
  Modelled from the spec: \<open>util.FileExists\<close> is declared in pkg/playbook/util, which
  is not among the sources. It reports whether a file exists at the path, or the I/O
  error met while looking.
\<close>

definition FileExists :: "system \<Rightarrow> disk \<Rightarrow> string \<Rightarrow> bool \<times> error option" where
  "FileExists S d path =
     (case stat_fault S path of
        Some err \<Rightarrow> (False, Some err)
      | None \<Rightarrow> (d path \<noteq> None, None))"

text \<open>
  Modelled from the spec: \<open>util.CopyFile\<close> is declared in pkg/playbook/util, which is
  not among the sources. It copies the source file byte for byte to the destination,
  overwriting what is there, and never moves or truncates the source. When the copy
  fails the source is as it was; the spec does not say what is left at the
  destination, so the fault names it (\<open>None\<close>: no file).
\<close>

definition CopyFile :: "system \<Rightarrow> disk \<Rightarrow> string \<Rightarrow> string \<Rightarrow> error option \<times> disk" where
  "CopyFile S d source destination =
     (case copy_fault S source destination of
        Some (err, left) \<Rightarrow> (Some err, if destination = source then d else d(destination := left))
      | None \<Rightarrow>
          (case d source of
             None \<Rightarrow> (Some (External ''no such file or directory''), d)
           | Some data \<Rightarrow> (None, d(destination \<mapsto> data))))"

text \<open>
  Modelled from the spec: \<open>util.WriteFile\<close> is declared in pkg/playbook/util, which is
  not among the sources. It writes the complete byte buffer to the path, or nothing
  at all.
\<close>

definition WriteFile :: "system \<Rightarrow> disk \<Rightarrow> string \<Rightarrow> bytes \<Rightarrow> error option \<times> disk" where
  "WriteFile S d path content =
     (case write_fault S path of
        Some err \<Rightarrow> (Some err, d)
      | None \<Rightarrow> (None, d(path \<mapsto> content)))"

text \<open>\<open>os.ReadFile\<close>: the bytes of the file at the path, or an error.\<close>

definition os_ReadFile :: "system \<Rightarrow> disk \<Rightarrow> string \<Rightarrow> error + bytes" where
  "os_ReadFile S d path =
     (case read_fault S path of
        Some err \<Rightarrow> Inl err
      | None \<Rightarrow>
          (case d path of
             None \<Rightarrow> Inl (External (''open '' @ path @ '': no such file or directory''))
           | Some data \<Rightarrow> Inr data))"

text \<open>
  Modelled from the spec: \<open>needRenewal\<close> is declared in another file of the package,
  which is not among the sources. The leaf certificate's expiry is compared with
  now + threshold: renewal is needed when the certificate has expired by then, that is
  when its expiry is at or before that instant.
\<close>

definition needRenewal :: "system \<Rightarrow> x509_Certificate \<Rightarrow> string \<Rightarrow> bool" where
  "needRenewal S cert renewBefore = (NotAfter cert \<le> now S + duration S renewBefore)"

subsection \<open>Loading and packaging a bundle\<close>

definition loadPKCS12 ::
  "library \<Rightarrow> system \<Rightarrow> disk \<Rightarrow> string \<Rightarrow> string \<Rightarrow> error + x509_Certificate" where
  "loadPKCS12 L S d pkcs12File keyPassword =
     (case os_ReadFile S d pkcs12File of
        Inl err \<Rightarrow> Inl err
      | Inr data \<Rightarrow>
          (case pkcs12_DecodeChain L data keyPassword of
             Inl err \<Rightarrow> Inl err
           | Inr (key, cert, chain) \<Rightarrow> Inr cert))"

text \<open>
  The loop of \<open>getX509CertChain\<close>, with the list built so far. \<open>chainBlock\<close> is not
  compared with nil before \<open>chainBlock.Bytes\<close> is read: on a nil block the read is a
  nil pointer dereference, and the function panics.
\<close>

fun getX509CertChain_loop ::
  "library \<Rightarrow> string list \<Rightarrow> x509_Certificate list \<Rightarrow>
     (x509_Certificate list \<times> error option) outcome" where
  "getX509CertChain_loop L [] chainList = Returns (chainList, None)"
| "getX509CertChain_loop L (chainCertStr # rest) chainList =
     (case pem_Decode L chainCertStr of
        None \<Rightarrow> Panics
      | Some chainBlock \<Rightarrow>
          (case x509_ParseCertificate L (Bytes chainBlock) of
             Inl err \<Rightarrow>
               Returns ([], Some (Errorf
                 ''failed to parse Chain Certificate bytes to X509.Certificate''))
           | Inr chainCert \<Rightarrow> getX509CertChain_loop L rest (chainList @ [chainCert])))"

definition getX509CertChain ::
  "library \<Rightarrow> string list \<Rightarrow> (x509_Certificate list \<times> error option) outcome" where
  "getX509CertChain L chain = getX509CertChain_loop L chain []"

definition packageAsPKCS12 ::
  "library \<Rightarrow> PEMCollection \<Rightarrow> string \<Rightarrow> (bytes \<times> error option) outcome" where
  "packageAsPKCS12 L pcc keyPassword =
     (if length (Certificate pcc) = 0 \<or> length (PrivateKey pcc) = 0
      then Returns ([], Some (Errorf ''certificate and Private Key are required for PKCS12''))
      else
        (case pem_Decode L (Certificate pcc) of
           None \<Rightarrow> Returns ([], Some (Errorf ''missing Certificate PEM''))
         | Some certBlock \<Rightarrow>
             if Type certBlock \<noteq> ''CERTIFICATE''
             then Returns ([], Some (Errorf ''missing Certificate PEM''))
             else
               (case x509_ParseCertificate L (Bytes certBlock) of
                  Inl err \<Rightarrow>
                    Returns ([], Some (Errorf
                      ''failed to parse Certificate bytes to X509.Certificate object''))
                | Inr cert \<Rightarrow>
                    (case getX509CertChain L (Chain pcc) of
                       Panics \<Rightarrow> Panics
                     | Returns (chainList, Some err) \<Rightarrow> Returns ([], Some err)
                     | Returns (chainList, None) \<Rightarrow>
                         (case getPrivateKey L (PrivateKey pcc) keyPassword of
                            Inl err \<Rightarrow> Returns ([], Some err)
                          | Inr privateKey \<Rightarrow>
                              (case pkcs12_Encode L (rand_Reader L) privateKey cert chainList
                                      keyPassword of
                                 Inl err \<Rightarrow>
                                   Returns ([], Some (Wrapf ''PKCS12 encode error: '' err))
                               | Inr bs \<Rightarrow> Returns (bs, None)))))))"

subsection \<open>The installer\<close>

definition Check ::
  "library \<Rightarrow> system \<Rightarrow> Installation \<Rightarrow> string \<Rightarrow> disk \<Rightarrow> bool \<times> error option" where
  "Check L S r renewBefore d =
     (case FileExists S d (File r) of
        (certExists, Some err) \<Rightarrow> (False, Some err)
      | (certExists, None) \<Rightarrow>
          if \<not> certExists then (True, None)
          else
            (case loadPKCS12 L S d (File r) (P12Password r) of
               Inl err \<Rightarrow> (False, Some err)
             | Inr cert \<Rightarrow> (needRenewal S cert renewBefore, None)))"

definition Backup :: "system \<Rightarrow> Installation \<Rightarrow> disk \<Rightarrow> error option \<times> disk" where
  "Backup S r d =
     (case FileExists S d (File r) of
        (certExists, Some err) \<Rightarrow> (Some err, d)
      | (certExists, None) \<Rightarrow>
          if \<not> certExists then (None, d)
          else
            (let newLocation = File r @ ''.bak'' in
             case CopyFile S d (File r) newLocation of
               (Some err, d') \<Rightarrow> (Some err, d')
             | (None, d') \<Rightarrow> (None, d')))"

definition Install ::
  "library \<Rightarrow> system \<Rightarrow> Installation \<Rightarrow> PEMCollection \<Rightarrow> disk \<Rightarrow>
     error option outcome \<times> disk" where
  "Install L S r pcc d =
     (if P12Password r = ''''
      then (Returns (Some ErrNoP12Password), d)
      else
        (case packageAsPKCS12 L pcc (P12Password r) of
           Panics \<Rightarrow> (Panics, d)
         | Returns (content, Some err) \<Rightarrow> (Returns (Some err), d)
         | Returns (content, None) \<Rightarrow>
             (case WriteFile S d (File r) content of
                (Some err, d') \<Rightarrow> (Returns (Some err), d')
              | (None, d') \<Rightarrow> (Returns None, d'))))"

definition AfterInstallActions ::
  "system \<Rightarrow> Installation \<Rightarrow> disk \<Rightarrow> (string \<times> error option) \<times> disk" where
  "AfterInstallActions S r d =
     (case ExecuteScript S (AfterAction r) d of
        ((result, err), d') \<Rightarrow> ((result, err), d'))"

definition InstallValidationActions ::
  "system \<Rightarrow> Installation \<Rightarrow> disk \<Rightarrow> (string \<times> error option) \<times> disk" where
  "InstallValidationActions S r d =
     (case ExecuteScript S (InstallValidation r) d of
        ((validationResult, Some err), d') \<Rightarrow> (('''', Some err), d')
      | ((validationResult, None), d') \<Rightarrow> ((validationResult, None), d'))"

subsection \<open>What a chain entry yields\<close>

text \<open>
  The certificate a chain entry stands for: its PEM block decoded and the block's bytes
  parsed, where both succeed.
\<close>

definition chainEntryCert :: "library \<Rightarrow> string \<Rightarrow> x509_Certificate option" where
  "chainEntryCert L s =
     (case pem_Decode L s of
        None \<Rightarrow> None
      | Some b \<Rightarrow>
          (case x509_ParseCertificate L (Bytes b) of Inl err \<Rightarrow> None | Inr c \<Rightarrow> Some c))"

subsection \<open>A small world to run the installer in\<close>

text \<open>
  One leaf certificate, one issuer, one key and one bundle, with libraries that know
  exactly these; the installer is evaluated in this world at concrete inputs.
\<close>

definition demo_leaf :: x509_Certificate where
  "demo_leaf = \<lparr>Raw = [1], NotAfter = 2000\<rparr>"

definition demo_ca :: x509_Certificate where
  "demo_ca = \<lparr>Raw = [2], NotAfter = 9000\<rparr>"

definition demo_library :: library where
  "demo_library =
     \<lparr>pem_Decode = (\<lambda>s. if s = ''leaf.pem'' then Some \<lparr>Type = ''CERTIFICATE'', Bytes = [1]\<rparr>
                        else if s = ''ca.pem'' then Some \<lparr>Type = ''CERTIFICATE'', Bytes = [2]\<rparr>
                        else None),
      x509_ParseCertificate = (\<lambda>b. if b = [1] then Inr demo_leaf
                        else if b = [2] then Inr demo_ca
                        else Inl (External ''x509: malformed certificate'')),
      getPrivateKey = (\<lambda>k pw. if k = ''key.pem'' then Inr [7]
                        else Inl (External ''unable to parse private key'')),
      pkcs12_Encode = (\<lambda>rnd key cert chain pw.
                        if key = [7] \<and> cert = demo_leaf \<and> chain = [demo_ca] \<and> pw = ''secret''
                        then Inr [48, 130]
                        else Inl (External ''pkcs12: cannot encode'')),
      pkcs12_DecodeChain = (\<lambda>data pw.
                        if data = [48, 130] \<and> pw = ''secret''
                        then Inr ([7], demo_leaf, [demo_ca])
                        else Inl (External ''pkcs12: decryption password incorrect'')),
      rand_Reader = []\<rparr>"

definition demo_system :: system where
  "demo_system =
     \<lparr>stat_fault = (\<lambda>p. None),
      read_fault = (\<lambda>p. None),
      copy_fault = (\<lambda>s t. None),
      write_fault = (\<lambda>p. None),
      ExecuteScript = (\<lambda>s d. if s = ''exit 1''
                        then ((''boom'', Some (External ''exit status 1'')), d)
                        else ((''0'', None), d)),
      now = 1000,
      duration = (\<lambda>s. if s = ''30d'' then 2592000 else 0)\<rparr>"

definition demo_installation :: Installation where
  "demo_installation =
     \<lparr>File = ''/etc/ssl/cert.p12'', P12Password = ''secret'',
      AfterAction = ''exit 1'', InstallValidation = ''exit 1''\<rparr>"

definition demo_pcc :: PEMCollection where
  "demo_pcc = \<lparr>Certificate = ''leaf.pem'', PrivateKey = ''key.pem'', Chain = [''ca.pem'']\<rparr>"

definition demo_disk :: disk where
  "demo_disk = [''/etc/ssl/cert.p12'' \<mapsto> [48, 130]]"

text \<open>
  The same libraries with an encoder that reads only the DER bytes of the certificates,
  as a PKCS#12 encoder does.
\<close>

definition demo_raw_library :: library where
  "demo_raw_library =
     demo_library\<lparr>pkcs12_Encode := (\<lambda>rnd key cert chain pw.
        if key = [7] \<and> Raw cert = [1] \<and> map Raw chain = [[2]] \<and> pw = ''secret''
        then Inr [48, 130]
        else Inl (External ''pkcs12: cannot encode''))\<rparr>"

section \<open>Properties\<close>

subsection \<open>The chain loop\<close>

text \<open>
  When the loop returns without error it has appended one certificate for every entry,
  in the order of the entries: no entry is skipped.
\<close>

lemma getX509CertChain_loop_success:
  "getX509CertChain_loop L chain acc = Returns (cl, None) \<Longrightarrow>
     \<exists>certs. cl = acc @ certs \<and> map (chainEntryCert L) chain = map Some certs"
proof (induction chain arbitrary: acc)
  case Nil
  then show ?case by simp
next
  case (Cons s rest)
  from Cons.prems obtain b c where
    b: "pem_Decode L s = Some b" and c: "x509_ParseCertificate L (Bytes b) = Inr c"
    and rest: "getX509CertChain_loop L rest (acc @ [c]) = Returns (cl, None)"
    by (auto split: option.splits sum.splits)
  from Cons.IH [OF rest] obtain certs where
    "cl = (acc @ [c]) @ certs" and "map (chainEntryCert L) rest = map Some certs"
    by blast
  with b c have
    "cl = acc @ (c # certs) \<and> map (chainEntryCert L) (s # rest) = map Some (c # certs)"
    by (simp add: chainEntryCert_def)
  then show ?case by blast
qed

text \<open>
  When every entry decodes and parses, the loop returns the certificates of the entries
  after those it started with, in order, and no error.
\<close>

lemma getX509CertChain_loop_complete:
  "map (chainEntryCert L) chain = map Some certs \<Longrightarrow>
     getX509CertChain_loop L chain acc = Returns (acc @ certs, None)"
proof (induction chain arbitrary: acc certs)
  case Nil
  then show ?case by simp
next
  case (Cons s rest)
  from Cons.prems obtain c cs where
    certs: "certs = c # cs" and c: "chainEntryCert L s = Some c"
    and rest: "map (chainEntryCert L) rest = map Some cs"
    by (cases certs) auto
  from c obtain b :: pem_Block where
    "pem_Decode L s = Some b" "x509_ParseCertificate L (Bytes b) = Inr c"
    by (auto simp: chainEntryCert_def split: option.splits sum.splits)
  with Cons.IH [OF rest, of "acc @ [c]"] certs show ?case by simp
qed

text \<open>
  When a parsed certificate carries the bytes it was parsed from, the certificates of
  the chain entries are certificates the parser yields from their own bytes.
\<close>

lemma chainEntryCert_parsed:
  assumes raw: "\<And>b c. x509_ParseCertificate L b = Inr c \<Longrightarrow> Raw c = b"
    and "map (chainEntryCert L) chain = map Some certs"
  shows "list_all (\<lambda>c. x509_ParseCertificate L (Raw c) = Inr c) certs"
  using assms(2)
proof (induction chain arbitrary: certs)
  case Nil
  then show ?case by simp
next
  case (Cons s rest)
  from Cons.prems obtain c cs where
    certs: "certs = c # cs" and c: "chainEntryCert L s = Some c"
    and rest: "map (chainEntryCert L) rest = map Some cs"
    by (cases certs) auto
  from c obtain b :: pem_Block where "x509_ParseCertificate L (Bytes b) = Inr c"
    by (auto simp: chainEntryCert_def split: option.splits sum.splits)
  with raw [of "Bytes b" c] have "x509_ParseCertificate L (Raw c) = Inr c" by simp
  with Cons.IH [OF rest] certs show ?case by simp
qed

text \<open>
  The first entry whose PEM block does not decode, after entries that decode and parse,
  makes the loop panic.
\<close>

lemma getX509CertChain_loop_nil_block:
  assumes "pem_Decode L bad = None"
    and "list_all (\<lambda>s. chainEntryCert L s \<noteq> None) before"
  shows "getX509CertChain_loop L (before @ bad # rest) acc = Panics"
  using assms
  by (induction before arbitrary: acc)
     (auto simp: chainEntryCert_def split: option.splits sum.splits)

text \<open>A bundle is only ever made from a chain all of whose entries decoded and parsed.\<close>

lemma packageAsPKCS12_whole_chain:
  assumes "packageAsPKCS12 L pcc keyPassword = Returns (bs, None)"
  shows "list_all (\<lambda>s. chainEntryCert L s \<noteq> None) (Chain pcc)"
proof -
  from assms obtain cl where "getX509CertChain L (Chain pcc) = Returns (cl, None)"
    by (auto simp: packageAsPKCS12_def
             split: if_splits option.splits sum.splits outcome.splits prod.splits)
  then obtain certs where "map (chainEntryCert L) (Chain pcc) = map Some certs"
    unfolding getX509CertChain_def by (blast dest: getX509CertChain_loop_success)
  then have "\<forall>s \<in> set (Chain pcc). chainEntryCert L s \<noteq> None"
    by (metis (no_types, lifting) imageE list.set_map option.distinct(1) image_eqI)
  then show ?thesis by (simp add: list_all_iff)
qed

text \<open>
  With a leaf certificate that decodes and parses, a chain entry whose PEM block is nil
  makes packaging panic, for every library and every password.
\<close>

lemma packageAsPKCS12_nil_chain_block:
  assumes "Certificate pcc \<noteq> []" and "PrivateKey pcc \<noteq> []"
    and "pem_Decode L (Certificate pcc) = Some certBlock"
    and "Type certBlock = ''CERTIFICATE''"
    and "x509_ParseCertificate L (Bytes certBlock) = Inr cert"
    and "Chain pcc = before @ bad # rest"
    and "list_all (\<lambda>s. chainEntryCert L s \<noteq> None) before"
    and "pem_Decode L bad = None"
  shows "packageAsPKCS12 L pcc keyPassword = Panics"
  using assms getX509CertChain_loop_nil_block [of L bad before rest "[]"]
  by (simp add: packageAsPKCS12_def getX509CertChain_def)

text \<open>
  Claim C1: a chain entry whose PEM block is malformed must make packaging fail by
  returning an error, with no bundle bytes. The source reads \<open>chainBlock.Bytes\<close>
  without comparing \<open>chainBlock\<close> with nil, as it does for the leaf certificate. With
  a good leaf certificate and key, a good first chain entry and a second entry that is
  not PEM, packaging returns nothing, neither bytes nor an error: it panics.
\<close>

theorem packageAsPKCS12_malformed_chain_entry_panics:
  "packageAsPKCS12 demo_library (demo_pcc\<lparr>Chain := [''ca.pem'', ''not a PEM block'']\<rparr>)
     ''secret'' = Panics"
  by (simp add: packageAsPKCS12_def getX509CertChain_def demo_library_def demo_pcc_def
        demo_leaf_def demo_ca_def)

subsection \<open>Packaging and installing\<close>

text \<open>
  Claim C3: when the leaf certificate text or the private key text is empty, packaging
  returns the missing-material error and no bytes. The result is the same for every
  library, so no PEM block is decoded and nothing is parsed on the way.
\<close>

theorem packageAsPKCS12_missing_material:
  assumes "Certificate pcc = [] \<or> PrivateKey pcc = []"
  shows "packageAsPKCS12 L pcc keyPassword =
           Returns ([], Some (Errorf ''certificate and Private Key are required for PKCS12''))"
  using assms by (auto simp: packageAsPKCS12_def)

theorem packageAsPKCS12_missing_material_witness:
  "packageAsPKCS12 demo_library (demo_pcc\<lparr>Certificate := []\<rparr>) ''secret'' =
     Returns ([], Some (Errorf ''certificate and Private Key are required for PKCS12''))
   \<and> packageAsPKCS12 demo_library (demo_pcc\<lparr>PrivateKey := []\<rparr>) ''secret'' =
     Returns ([], Some (Errorf ''certificate and Private Key are required for PKCS12''))"
proof -
  have c: "Certificate (demo_pcc\<lparr>Certificate := []\<rparr>) = []
             \<or> PrivateKey (demo_pcc\<lparr>Certificate := []\<rparr>) = []"
    by simp
  have k: "Certificate (demo_pcc\<lparr>PrivateKey := []\<rparr>) = []
             \<or> PrivateKey (demo_pcc\<lparr>PrivateKey := []\<rparr>) = []"
    by simp
  from packageAsPKCS12_missing_material [OF c] packageAsPKCS12_missing_material [OF k]
  show ?thesis by blast
qed

text \<open>
  Claim C4: with an empty bundle password \<open>Install\<close> returns the missing-password error
  and leaves the disk as it was. The result is the same for every library, system and
  PEM collection: nothing is packaged and nothing is written.
\<close>

theorem Install_empty_password:
  assumes "P12Password r = []"
  shows "Install L S r pcc d = (Returns (Some ErrNoP12Password), d)"
  using assms by (simp add: Install_def)

theorem Install_empty_password_witness:
  "Install demo_library demo_system (demo_installation\<lparr>P12Password := []\<rparr>) demo_pcc demo_disk
     = (Returns (Some ErrNoP12Password), demo_disk)"
proof -
  have "P12Password (demo_installation\<lparr>P12Password := []\<rparr>) = []" by simp
  then show ?thesis by (rule Install_empty_password)
qed

text \<open>
  When packaging returns an error, \<open>Install\<close> returns an error and the disk is as it
  was: the error is the one packaging returned (with an empty password, for which
  packaging is never started, it is the missing-password error).
\<close>

lemma Install_packaging_error:
  assumes "packageAsPKCS12 L pcc (P12Password r) = Returns (content, Some err)"
  shows "Install L S r pcc d =
           (Returns (Some (if P12Password r = [] then ErrNoP12Password else err)), d)"
  using assms by (simp add: Install_def)

text \<open>
  Claim C6: when packaging fails at any step, \<open>Install\<close> must return that error and
  write nothing. Packaging fails at the chain step on an entry that is not PEM by
  panicking, and \<open>Install\<close> does not recover: with a good leaf certificate and key, a
  good first chain entry and a second entry that is not PEM, \<open>Install\<close> returns no
  error at all. The disk is as it was.
\<close>

theorem Install_malformed_chain_entry_panics:
  "Install demo_library demo_system demo_installation
     (demo_pcc\<lparr>Chain := [''ca.pem'', ''not a PEM block'']\<rparr>) demo_disk
     = (Panics, demo_disk)"
  by (simp add: Install_def packageAsPKCS12_def getX509CertChain_def demo_library_def
        demo_pcc_def demo_installation_def demo_leaf_def demo_ca_def)

text \<open>
  What \<open>Install\<close> leaves on disk is either the disk as it was, or the disk with the
  whole bundle at the target path.
\<close>

lemma Install_all_or_nothing:
  "snd (Install L S r pcc d) = d \<or>
   (\<exists>content. packageAsPKCS12 L pcc (P12Password r) = Returns (content, None)
       \<and> fst (Install L S r pcc d) = Returns None
       \<and> snd (Install L S r pcc d) = d(File r \<mapsto> content))"
  by (auto simp: Install_def WriteFile_def
           split: outcome.splits option.splits prod.splits)

subsection \<open>The renewal decision\<close>

text \<open>
  Claim C2: \<open>Check\<close> returns \<open>(true, nil)\<close> when no file exists at the target path.
  When the file there decodes with the configured password, it returns \<open>(false, nil)\<close>
  if the leaf certificate expires strictly after now + threshold, and \<open>(true, nil)\<close> if
  it expires at or before now + threshold.
\<close>

theorem Check_decision:
  assumes "stat_fault S (File r) = None"
  shows "(d (File r) = None \<longrightarrow> Check L S r renewBefore d = (True, None))
       \<and> (d (File r) = Some data \<and> read_fault S (File r) = None
            \<and> pkcs12_DecodeChain L data (P12Password r) = Inr (key, cert, chain) \<longrightarrow>
          (now S + duration S renewBefore < NotAfter cert \<longrightarrow>
             Check L S r renewBefore d = (False, None))
        \<and> (NotAfter cert \<le> now S + duration S renewBefore \<longrightarrow>
             Check L S r renewBefore d = (True, None)))"
  using assms
  by (simp add: Check_def FileExists_def loadPKCS12_def os_ReadFile_def needRenewal_def)

theorem Check_decision_witness:
  "Check demo_library demo_system demo_installation ''30d'' Map.empty = (True, None)
   \<and> Check demo_library demo_system demo_installation ''0d'' demo_disk = (False, None)
   \<and> Check demo_library demo_system demo_installation ''30d'' demo_disk = (True, None)"
proof -
  have s: "stat_fault demo_system (File demo_installation) = None"
    by (simp add: demo_system_def)
  have absent: "Map.empty (File demo_installation) = (None :: bytes option)"
    by simp
  have present: "demo_disk (File demo_installation) = Some [48, 130]
      \<and> read_fault demo_system (File demo_installation) = None
      \<and> pkcs12_DecodeChain demo_library [48, 130] (P12Password demo_installation)
          = Inr ([7], demo_leaf, [demo_ca])"
    by (simp add: demo_disk_def demo_installation_def demo_system_def demo_library_def)
  have later: "now demo_system + duration demo_system ''0d'' < NotAfter demo_leaf"
    by (simp add: demo_system_def demo_leaf_def)
  have sooner: "NotAfter demo_leaf \<le> now demo_system + duration demo_system ''30d''"
    by (simp add: demo_system_def demo_leaf_def)
  from Check_decision [OF s, of Map.empty demo_library "''30d''"] absent
  have 1: "Check demo_library demo_system demo_installation ''30d'' Map.empty = (True, None)"
    by blast
  from Check_decision [OF s, of demo_disk demo_library "''0d''" "[48, 130]" "[7]" demo_leaf
      "[demo_ca]"] present later
  have 2: "Check demo_library demo_system demo_installation ''0d'' demo_disk = (False, None)"
    by blast
  from Check_decision [OF s, of demo_disk demo_library "''30d''" "[48, 130]" "[7]" demo_leaf
      "[demo_ca]"] present sooner
  have 3: "Check demo_library demo_system demo_installation ''30d'' demo_disk = (True, None)"
    by blast
  from 1 2 3 show ?thesis by blast
qed

text \<open>
  Claim C5: when a file exists at the target path and does not decode with the
  configured password, \<open>Check\<close> returns the decoder's error, with \<open>false\<close> beside it:
  never a verdict with a nil error.
\<close>

theorem Check_decode_failure:
  assumes "d (File r) = Some data"
    and "stat_fault S (File r) = None"
    and "read_fault S (File r) = None"
    and "pkcs12_DecodeChain L data (P12Password r) = Inl err"
  shows "Check L S r renewBefore d = (False, Some err)"
  using assms by (simp add: Check_def FileExists_def loadPKCS12_def os_ReadFile_def)

theorem Check_decode_failure_witness:
  "Check demo_library demo_system (demo_installation\<lparr>P12Password := ''wrong''\<rparr>) ''30d''
     demo_disk
     = (False, Some (External ''pkcs12: decryption password incorrect''))"
proof -
  let ?r = "demo_installation\<lparr>P12Password := ''wrong''\<rparr>"
  have 1: "demo_disk (File ?r) = Some [48, 130]"
    by (simp add: demo_disk_def demo_installation_def)
  have 2: "stat_fault demo_system (File ?r) = None"
    by (simp add: demo_system_def)
  have 3: "read_fault demo_system (File ?r) = None"
    by (simp add: demo_system_def)
  have 4: "pkcs12_DecodeChain demo_library [48, 130] (P12Password ?r)
             = Inl (External ''pkcs12: decryption password incorrect'')"
    by (simp add: demo_library_def)
  show ?thesis
    by (rule Check_decode_failure [where d = demo_disk and r = "?r" and S = demo_system,
          OF 1 2 3 4])
qed

subsection \<open>The backup\<close>

text \<open>
  Claim C7: when a file exists at the source path and no I/O failure occurs, \<open>Backup\<close>
  succeeds, the file at the source path followed by \<open>.bak\<close> holds the bytes of the
  source, and the source file is as it was.
\<close>

theorem Backup_copies:
  assumes "d (File r) = Some data"
    and "stat_fault S (File r) = None"
    and "copy_fault S (File r) (File r @ ''.bak'') = None"
  shows "Backup S r d = (None, d(File r @ ''.bak'' \<mapsto> data))
       \<and> (snd (Backup S r d)) (File r @ ''.bak'') = Some data
       \<and> (snd (Backup S r d)) (File r) = d (File r)"
  using assms by (simp add: Backup_def FileExists_def CopyFile_def)

theorem Backup_copies_witness:
  "Backup demo_system demo_installation demo_disk
     = (None, demo_disk(''/etc/ssl/cert.p12.bak'' \<mapsto> [48, 130]))
   \<and> (snd (Backup demo_system demo_installation demo_disk)) ''/etc/ssl/cert.p12.bak''
       = Some [48, 130]
   \<and> (snd (Backup demo_system demo_installation demo_disk)) ''/etc/ssl/cert.p12''
       = Some [48, 130]"
proof -
  have 1: "demo_disk (File demo_installation) = Some [48, 130]"
    by (simp add: demo_disk_def demo_installation_def)
  have 2: "stat_fault demo_system (File demo_installation) = None"
    by (simp add: demo_system_def)
  have 3: "copy_fault demo_system (File demo_installation) (File demo_installation @ ''.bak'')
             = None"
    by (simp add: demo_system_def)
  have f: "File demo_installation = ''/etc/ssl/cert.p12''"
    by (simp add: demo_installation_def)
  from Backup_copies [where d = demo_disk and r = demo_installation and S = demo_system,
      OF 1 2 3] 1
  show ?thesis
    by (simp add: f)
qed

text \<open>
  Claim C8: when no file exists at the source path, \<open>Backup\<close> returns success and the
  disk is as it was: no file is created at the backup location.
\<close>

theorem Backup_nothing_to_copy:
  assumes "d (File r) = None" and "stat_fault S (File r) = None"
  shows "Backup S r d = (None, d)"
  using assms by (simp add: Backup_def FileExists_def)

theorem Backup_nothing_to_copy_witness:
  "Backup demo_system demo_installation Map.empty = (None, Map.empty)
   \<and> (snd (Backup demo_system demo_installation Map.empty)) ''/etc/ssl/cert.p12.bak'' = None"
proof -
  have 1: "Map.empty (File demo_installation) = (None :: bytes option)" by simp
  have 2: "stat_fault demo_system (File demo_installation) = None"
    by (simp add: demo_system_def)
  from Backup_nothing_to_copy [where d = Map.empty and r = demo_installation
      and S = demo_system, OF 1 2]
  show ?thesis by simp
qed

subsection \<open>Encoding, then decoding\<close>

text \<open>
  Claim C9: for a valid PEM collection and a non-empty password, the bytes
  \<open>packageAsPKCS12\<close> returns, stored in a file and loaded with the same password by
  \<open>loadPKCS12\<close>, give a certificate whose expiry is the expiry of the leaf certificate
  that was packaged.

  The collection is valid when both texts are present, the leaf text decodes to a
  \<open>CERTIFICATE\<close> block that parses, every chain entry decodes and parses, the key
  parses, and the encoder accepts the parsed material. Packaging then returns exactly
  the encoder's bytes. Two laws of the libraries are needed, as the codec and the parser
  are not part of the installer: a parsed certificate carries the DER bytes it was parsed
  from (\<open>raw\<close>), and decoding a bundle with the password it was encoded under gives back
  the certificates that were encoded, when these are certificates the parser yields
  from their own DER bytes (\<open>law\<close>).
\<close>

theorem package_load_roundtrip:
  assumes cert_text: "Certificate pcc \<noteq> []"
    and key_text: "PrivateKey pcc \<noteq> []"
    and password: "keyPassword \<noteq> []"
    and blk: "pem_Decode L (Certificate pcc) = Some certBlock"
    and tagged: "Type certBlock = ''CERTIFICATE''"
    and leaf: "x509_ParseCertificate L (Bytes certBlock) = Inr leaf"
    and chain: "map (chainEntryCert L) (Chain pcc) = map Some chainCerts"
    and key: "getPrivateKey L (PrivateKey pcc) keyPassword = Inr privateKey"
    and enc: "pkcs12_Encode L (rand_Reader L) privateKey leaf chainCerts keyPassword = Inr bs"
    and raw: "\<And>b c. x509_ParseCertificate L b = Inr c \<Longrightarrow> Raw c = b"
    and law: "\<And>rnd k c cs pw out.
            pkcs12_Encode L rnd k c cs pw = Inr out \<Longrightarrow>
            x509_ParseCertificate L (Raw c) = Inr c \<Longrightarrow>
            list_all (\<lambda>c'. x509_ParseCertificate L (Raw c') = Inr c') cs \<Longrightarrow>
            \<exists>k'. pkcs12_DecodeChain L out pw = Inr (k', c, cs)"
    and stored: "d path = Some bs"
    and rd: "read_fault S path = None"
  shows "packageAsPKCS12 L pcc keyPassword = Returns (bs, None)
       \<and> (\<exists>loaded. loadPKCS12 L S d path keyPassword = Inr loaded
                   \<and> NotAfter loaded = NotAfter leaf)"
proof -
  from chain have "getX509CertChain L (Chain pcc) = Returns (chainCerts, None)"
    unfolding getX509CertChain_def
    using getX509CertChain_loop_complete [of L "Chain pcc" chainCerts "[]"] by simp
  with cert_text key_text blk tagged leaf key enc
  have pkg: "packageAsPKCS12 L pcc keyPassword = Returns (bs, None)"
    by (simp add: packageAsPKCS12_def)
  from raw [OF leaf] leaf have l: "x509_ParseCertificate L (Raw leaf) = Inr leaf" by simp
  from chainEntryCert_parsed [OF raw chain]
  have cs: "list_all (\<lambda>c'. x509_ParseCertificate L (Raw c') = Inr c') chainCerts" .
  from law [OF enc l cs] obtain k' where
    "pkcs12_DecodeChain L bs keyPassword = Inr (k', leaf, chainCerts)" by blast
  with stored rd have "loadPKCS12 L S d path keyPassword = Inr leaf"
    by (simp add: loadPKCS12_def os_ReadFile_def)
  with pkg show ?thesis by simp
qed

theorem package_load_roundtrip_witness:
  "packageAsPKCS12 demo_raw_library demo_pcc ''secret'' = Returns ([48, 130], None)
   \<and> (\<exists>loaded. loadPKCS12 demo_raw_library demo_system demo_disk ''/etc/ssl/cert.p12''
                  ''secret'' = Inr loaded
        \<and> NotAfter loaded = 2000)"
proof -
  have "packageAsPKCS12 demo_raw_library demo_pcc ''secret'' = Returns ([48, 130], None)
      \<and> (\<exists>loaded. loadPKCS12 demo_raw_library demo_system demo_disk ''/etc/ssl/cert.p12''
                     ''secret'' = Inr loaded
           \<and> NotAfter loaded = NotAfter demo_leaf)"
  proof (rule package_load_roundtrip
      [where certBlock = "\<lparr>Type = ''CERTIFICATE'', Bytes = [1]\<rparr>"
         and chainCerts = "[demo_ca]" and privateKey = "[7]"])
    show "Certificate demo_pcc \<noteq> []"
      by (simp add: demo_pcc_def)
    show "PrivateKey demo_pcc \<noteq> []"
      by (simp add: demo_pcc_def)
    show "''secret'' \<noteq> []"
      by simp
    show "pem_Decode demo_raw_library (Certificate demo_pcc)
            = Some \<lparr>Type = ''CERTIFICATE'', Bytes = [1]\<rparr>"
      by (simp add: demo_raw_library_def demo_library_def demo_pcc_def)
    show "Type \<lparr>Type = ''CERTIFICATE'', Bytes = [1]\<rparr> = ''CERTIFICATE''"
      by simp
    show "x509_ParseCertificate demo_raw_library (Bytes \<lparr>Type = ''CERTIFICATE'', Bytes = [1]\<rparr>)
            = Inr demo_leaf"
      by (simp add: demo_raw_library_def demo_library_def)
    show "map (chainEntryCert demo_raw_library) (Chain demo_pcc) = map Some [demo_ca]"
      by (simp add: chainEntryCert_def demo_raw_library_def demo_library_def demo_pcc_def)
    show "getPrivateKey demo_raw_library (PrivateKey demo_pcc) ''secret'' = Inr [7]"
      by (simp add: demo_raw_library_def demo_library_def demo_pcc_def)
    show "pkcs12_Encode demo_raw_library (rand_Reader demo_raw_library) [7] demo_leaf
            [demo_ca] ''secret'' = Inr [48, 130]"
      by (simp add: demo_raw_library_def demo_leaf_def demo_ca_def)
    show "\<And>b c. x509_ParseCertificate demo_raw_library b = Inr c \<Longrightarrow> Raw c = b"
      by (auto simp: demo_raw_library_def demo_library_def demo_leaf_def demo_ca_def
               split: if_splits)
    show "\<And>rnd k c cs pw out.
            pkcs12_Encode demo_raw_library rnd k c cs pw = Inr out \<Longrightarrow>
            x509_ParseCertificate demo_raw_library (Raw c) = Inr c \<Longrightarrow>
            list_all (\<lambda>c'. x509_ParseCertificate demo_raw_library (Raw c') = Inr c') cs \<Longrightarrow>
            \<exists>k'. pkcs12_DecodeChain demo_raw_library out pw = Inr (k', c, cs)"
      by (auto simp: demo_raw_library_def demo_library_def split: if_splits)
    show "demo_disk ''/etc/ssl/cert.p12'' = Some [48, 130]"
      by (simp add: demo_disk_def)
    show "read_fault demo_system ''/etc/ssl/cert.p12'' = None"
      by (simp add: demo_system_def)
  qed
  then show ?thesis by (simp add: demo_leaf_def)
qed

subsection \<open>The hooks\<close>

text \<open>
  Claim C10: when the script returns a non-nil error, \<open>InstallValidationActions\<close>
  returns the empty string with that error, whatever the script printed, and
  \<open>AfterInstallActions\<close>, run on the same instruction, returns what the script printed
  with that error.
\<close>

theorem validation_discards_output:
  assumes "ExecuteScript S instruction d = ((output, Some err), d')"
  shows "(InstallValidation r = instruction \<longrightarrow>
            InstallValidationActions S r d = (('''', Some err), d'))
       \<and> (AfterAction r = instruction \<longrightarrow>
            AfterInstallActions S r d = ((output, Some err), d'))"
  using assms by (simp add: InstallValidationActions_def AfterInstallActions_def)

theorem validation_discards_output_witness:
  "InstallValidationActions demo_system demo_installation demo_disk
     = (('''', Some (External ''exit status 1'')), demo_disk)
   \<and> AfterInstallActions demo_system demo_installation demo_disk
     = ((''boom'', Some (External ''exit status 1'')), demo_disk)"
proof -
  have run: "ExecuteScript demo_system ''exit 1'' demo_disk
               = ((''boom'', Some (External ''exit status 1'')), demo_disk)"
    by (simp add: demo_system_def)
  have v: "InstallValidation demo_installation = ''exit 1''"
    by (simp add: demo_installation_def)
  have a: "AfterAction demo_installation = ''exit 1''"
    by (simp add: demo_installation_def)
  from validation_discards_output [OF run, of demo_installation] v a
  show ?thesis by blast
qed

end
